theory Spec2Isabelle
  imports Complex_Main "HOL-Library.Word"
begin

unbundle bit_operations_syntax

section \<open>FramePolyglot: the streaming transcription loop of \<^verbatim>\<open>fame_transcription.py\<close>\<close>

text \<open>
  The program is one coroutine, \<^verbatim>\<open>main\<close>, plus the converter \<^verbatim>\<open>pcm16_to_f32\<close>.
  The embedding follows \<^verbatim>\<open>main\<close> from the point where the device is connected and
  the audio receiver is attached (line 172 on). What \<^verbatim>\<open>main\<close> does to the outside
  world is recorded as a list of actions, in the order the statements run; what the
  outside world hands to \<^verbatim>\<open>main\<close> (audio packets, clock readings, the stop event)
  is an input list. The two libraries the loop calls, \<^verbatim>\<open>resampy.resample\<close> and
  \<^verbatim>\<open>WhisperModel.transcribe\<close>, are not part of the repository and are parameters of
  every function that reaches them.
\<close>

subsection \<open>Configuration (lines 10 to 14)\<close>

definition STEP_SEC :: real where
  "STEP_SEC = 1.0"

definition RATE_IN :: nat where
  "RATE_IN = 8000"

definition RATE_OUT :: nat where
  "RATE_OUT = 16000"

definition CONTEXT_SEC :: nat where
  "CONTEXT_SEC = 25"

text \<open>Line 202: \<^verbatim>\<open>max_samples = CONTEXT_SEC * RATE_OUT\<close>.\<close>

definition max_samples :: nat where
  "max_samples = CONTEXT_SEC * RATE_OUT"

subsection \<open>Errors\<close>

text \<open>
  \<^verbatim>\<open>ValueError\<close> is what \<^verbatim>\<open>np.frombuffer\<close> raises on a buffer whose size is not a
  multiple of the element size; \<open>TimeoutError\<close> is \<^verbatim>\<open>asyncio.TimeoutError\<close> (from
  Python 3.11 on the built-in \<^verbatim>\<open>TimeoutError\<close>), the one exception the recording loop
  catches; \<open>EngineError\<close> stands for any other exception of the transcription engine;
  \<open>KeyboardInterrupt\<close> for the interruption of the prompt.
\<close>

datatype exn = ValueError | TimeoutError | EngineError | KeyboardInterrupt

subsection \<open>\<^verbatim>\<open>pcm16_to_f32\<close> (lines 17 and 18)\<close>

type_synonym byte = "8 word"
type_synonym int16 = "16 word"

text \<open>
  \<^verbatim>\<open>np.frombuffer(pcm, dtype=np.int16)\<close>: consecutive byte pairs, low byte first (the
  native order of the little-endian hosts numpy runs on), read as two's complement.
  A trailing single byte makes numpy raise \<^verbatim>\<open>ValueError\<close>.
\<close>

fun frombuffer_int16 :: "byte list \<Rightarrow> exn + int16 list" where
  "frombuffer_int16 [] = Inr []"
| "frombuffer_int16 [b] = Inl ValueError"
| "frombuffer_int16 (lo # hi # bs) =
     (case frombuffer_int16 bs of
        Inl e \<Rightarrow> Inl e
      | Inr ws \<Rightarrow> Inr ((push_bit 8 (ucast hi) OR ucast lo) # ws))"

text \<open>
  \<^verbatim>\<open>.astype(np.float32) / 32768.0\<close>. Every 16-bit integer is a float32 exactly, and
  the division by \<open>2 ^ 15\<close> only changes the exponent, so the float32 result is the
  rational number \<open>sint w / 32768\<close> with no rounding; samples are modelled as reals.
\<close>

definition astype_f32 :: "int16 \<Rightarrow> real" where
  "astype_f32 w = real_of_int (sint w)"

definition pcm16_to_f32 :: "byte list \<Rightarrow> exn + real list" where
  "pcm16_to_f32 pcm =
     (case frombuffer_int16 pcm of
        Inl e \<Rightarrow> Inl e
      | Inr ws \<Rightarrow> Inr (map (\<lambda>w. astype_f32 w / 32768.0) ws))"

subsection \<open>The rolling window (lines 223 to 225)\<close>

text \<open>
  The Python slice \<^verbatim>\<open>xs[-n:]\<close>: the last \<open>n\<close> elements, all of \<open>xs\<close> when it has
  fewer, and (since \<^verbatim>\<open>-0\<close> is \<^verbatim>\<open>0\<close>) all of \<open>xs\<close> when \<open>n = 0\<close>.
\<close>

definition slice_last :: "nat \<Rightarrow> 'a list \<Rightarrow> 'a list" where
  "slice_last n xs = (if n = 0 then xs else drop (length xs - n) xs)"

text \<open>
  \<^verbatim>\<open>buf_pcm16k = np.concatenate([buf_pcm16k, up])\<close>, then the trim under
  \<^verbatim>\<open>if buf_pcm16k.size > max_samples\<close>.
\<close>

definition window_append :: "real list \<Rightarrow> real list \<Rightarrow> real list" where
  "window_append buf_pcm16k up =
     (let buf = buf_pcm16k @ up
      in if length buf > max_samples then slice_last max_samples buf else buf)"

subsection \<open>The transcript text and the change gate (lines 237 and 238)\<close>

text \<open>
  A Python \<^verbatim>\<open>str\<close> is a sequence of Unicode code points; a code point is a natural
  number. \<open>ascii\<close> reads a literal of ASCII characters as such a sequence.
\<close>

type_synonym str = "nat list"

definition ascii :: "string \<Rightarrow> str" where
  "ascii cs = map of_char cs"

text \<open>
  \<^verbatim>\<open>str.strip()\<close> removes leading and trailing whitespace: the code points for which
  \<^verbatim>\<open>str.isspace\<close> holds. They are U+0009 to U+000D, U+001C to U+0020, U+0085, U+00A0,
  U+1680, U+2000 to U+200A, U+2028, U+2029, U+202F, U+205F and U+3000.
\<close>

definition is_space :: "nat \<Rightarrow> bool" where
  "is_space c =
     ((0x09 \<le> c \<and> c \<le> 0x0D) \<or> (0x1C \<le> c \<and> c \<le> 0x20)
      \<or> c = 0x85 \<or> c = 0xA0 \<or> c = 0x1680
      \<or> (0x2000 \<le> c \<and> c \<le> 0x200A)
      \<or> c = 0x2028 \<or> c = 0x2029 \<or> c = 0x202F \<or> c = 0x205F \<or> c = 0x3000)"

definition strip :: "str \<Rightarrow> str" where
  "strip s = rev (dropWhile is_space (rev (dropWhile is_space s)))"

text \<open>\<^verbatim>\<open>"".join(s.text for s in segments).strip()\<close>\<close>

definition collect_text :: "str list \<Rightarrow> str" where
  "collect_text segments = strip (concat segments)"

text \<open>The test of line 238, \<^verbatim>\<open>if text and text != last_terminal\<close>.\<close>

definition should_emit :: "str \<Rightarrow> str \<Rightarrow> bool" where
  "should_emit new_text last_text = (new_text \<noteq> [] \<and> new_text \<noteq> last_text)"

subsection \<open>Actions, inputs and the local variables of \<^verbatim>\<open>main\<close>\<close>

text \<open>
  \<open>Send code payload\<close> is \<^verbatim>\<open>frame.send_message(code, payload)\<close>; the payload is
  either a packed \<^verbatim>\<open>TxCode(value=v)\<close> or \<^verbatim>\<open>text.encode()\<close>, recorded as the text. \<open>Transcribe w\<close> records one
  call of \<^verbatim>\<open>model.transcribe\<close> on the window \<open>w\<close>. \<open>CancelStopTask\<close> is the
  \<^verbatim>\<open>stop_task.cancel()\<close> of line 253; the last four are the calls of the cleanup
  block (lines 294 to 299). Terminal output (\<^verbatim>\<open>print\<close>) is left out of the trace.
  The device-link calls are taken to return normally.
\<close>

datatype payload = TxCode nat | Text str

datatype action =
    Send nat payload
  | Transcribe "real list"
  | CancelStopTask
  | DetachAudio
  | DetachPrintHandler
  | StopFrameApp
  | Disconnect

text \<open>
  One iteration of the recording loop, entered with the stop event not set, sees one of:
  the 0.1 s wait timing out; the queue delivering \<^verbatim>\<open>None\<close>; the queue delivering a
  packet, together with the two clock readings \<^verbatim>\<open>time.time()\<close> of lines 214 and 215.
  The list of polls of a recording is the list of its iterations; when it is used up
  the stop event is set.
\<close>

datatype poll = Timeout | EndOfStream | Chunk "byte list" real real

text \<open>
  The local variables of \<^verbatim>\<open>main\<close> that the loops read and write. \<open>model\<close> is the
  state of the transcription engine, of a type the engine chooses.
\<close>

record 'e locals =
  model :: 'e
  buf_pcm8k :: "byte list"
  buf_pcm16k :: "real list"
  last_terminal :: str
  last_t :: real

type_synonym resampler = "real list \<Rightarrow> real list"
type_synonym 'e engine = "'e \<Rightarrow> real list \<Rightarrow> (exn + str list) \<times> 'e"

subsection \<open>One packet of the recording loop (lines 211 to 244)\<close>

text \<open>
  The result is the trace of the iteration and either the exception that left it, with
  the local variables as they were at the raise, or the local variables after it. \<open>resample\<close> is
  \<^verbatim>\<open>resampy.resample(_, RATE_IN, RATE_OUT)\<close>; \<open>transcribe\<close> is \<^verbatim>\<open>model.transcribe\<close>
  with the iteration of its segments, returning their texts or raising.
\<close>

definition on_packet ::
  "resampler \<Rightarrow> 'e engine \<Rightarrow> 'e locals \<Rightarrow> byte list \<Rightarrow> real \<Rightarrow> real
    \<Rightarrow> action list \<times> (exn \<times> 'e locals + 'e locals)" where
  "on_packet resample transcribe s pkt now1 now2 =
     (let s1 = s\<lparr>buf_pcm8k := buf_pcm8k s @ pkt\<rparr>
      in if now1 - last_t s1 \<ge> STEP_SEC then
           (let s2 = s1\<lparr>last_t := now2\<rparr>
            in case pcm16_to_f32 (buf_pcm8k s2) of
                 Inl e \<Rightarrow> ([], Inl (e, s2))
               | Inr pcm_f32 \<Rightarrow>
                   (let s3 = s2\<lparr>buf_pcm8k := []\<rparr>
                    in if length pcm_f32 = 0 then ([], Inr s3)
                       else
                         (let up = resample pcm_f32;
                              s4 = s3\<lparr>buf_pcm16k := window_append (buf_pcm16k s3) up\<rparr>
                          in case transcribe (model s4) (buf_pcm16k s4) of
                               (Inl e, m) \<Rightarrow>
                                 ([Transcribe (buf_pcm16k s4)], Inl (e, s4\<lparr>model := m\<rparr>))
                             | (Inr segments, m) \<Rightarrow>
                                 (let s5 = s4\<lparr>model := m\<rparr>;
                                      text = collect_text segments
                                  in if should_emit text (last_terminal s5)
                                     then ([Transcribe (buf_pcm16k s5), Send 0x31 (Text text)],
                                           Inr (s5\<lparr>last_terminal := text\<rparr>))
                                     else ([Transcribe (buf_pcm16k s5)], Inr s5)))))
         else ([], Inr s1))"

subsection \<open>The recording loop (lines 204 to 257)\<close>

text \<open>How the \<^verbatim>\<open>while\<close> loop was left: its condition failed, or the \<^verbatim>\<open>break\<close> of line 210.\<close>

datatype loop_exit = StopSet | Break

text \<open>
  The \<^verbatim>\<open>try\<close> of line 206 encloses the whole body of the iteration, and its handler
  (lines 246 to 248) continues the loop: an \<^verbatim>\<open>asyncio.TimeoutError\<close> is caught whether
  the wait for the packet raised it (the poll \<open>Timeout\<close>) or the engine did in the
  decode, and the loop goes on with the local variables as they were at the raise. Every
  other exception leaves the loop.
\<close>

definition timeout_handler :: "exn \<times> 'e locals + 'e locals \<Rightarrow> exn + 'e locals" where
  "timeout_handler r =
     (case r of
        Inl (e, s) \<Rightarrow> if e = TimeoutError then Inr s else Inl e
      | Inr s \<Rightarrow> Inr s)"

fun rec_loop ::
  "resampler \<Rightarrow> 'e engine \<Rightarrow> 'e locals \<Rightarrow> poll list
    \<Rightarrow> action list \<times> (exn + 'e locals \<times> loop_exit)" where
  "rec_loop resample transcribe s [] = ([], Inr (s, StopSet))"
| "rec_loop resample transcribe s (Timeout # ps) = rec_loop resample transcribe s ps"
| "rec_loop resample transcribe s (EndOfStream # ps) = ([], Inr (s, Break))"
| "rec_loop resample transcribe s (Chunk pkt now1 now2 # ps) =
     (case on_packet resample transcribe s pkt now1 now2 of
        (tr, r) \<Rightarrow>
          (case timeout_handler r of
             Inl e \<Rightarrow> (tr, Inl e)
           | Inr s' \<Rightarrow>
               (case rec_loop resample transcribe s' ps of (tr', r') \<Rightarrow> (tr @ tr', r'))))"

text \<open>
  The \<^verbatim>\<open>finally\<close> of lines 250 to 257 around the loop: the stop task is done exactly
  when the loop ended because the stop event was set; otherwise it is cancelled.
\<close>

definition recording ::
  "resampler \<Rightarrow> 'e engine \<Rightarrow> 'e locals \<Rightarrow> poll list \<Rightarrow> action list \<times> (exn + 'e locals)" where
  "recording resample transcribe s ps =
     (case rec_loop resample transcribe s ps of
        (tr, Inl e) \<Rightarrow> (tr @ [CancelStopTask], Inl e)
      | (tr, Inr (s', Break)) \<Rightarrow> (tr @ [CancelStopTask], Inr s')
      | (tr, Inr (s', StopSet)) \<Rightarrow> (tr, Inr s'))"

subsection \<open>After the loop (lines 259 to 282)\<close>

definition finalizing ::
  "'e engine \<Rightarrow> 'e locals \<Rightarrow> action list \<times> (exn + 'e locals)" where
  "finalizing transcribe s =
     (let stop = [Send 0x30 (TxCode 0)]
      in if length (buf_pcm16k s) > 0 then
           (let processing = [Send 0x31 (Text (ascii ''Processing final transcription...''))]
            in case transcribe (model s) (buf_pcm16k s) of
                 (Inl e, m) \<Rightarrow> (stop @ processing @ [Transcribe (buf_pcm16k s)], Inl e)
               | (Inr segments, m) \<Rightarrow>
                   (let s' = s\<lparr>model := m\<rparr>;
                        final_text = collect_text segments
                    in if final_text \<noteq> []
                       then (stop @ processing @
                              [Transcribe (buf_pcm16k s), Send 0x31 (Text final_text)], Inr s')
                       else (stop @ processing @
                              [Transcribe (buf_pcm16k s), Send 0x31 (Text (ascii ''No speech detected.''))],
                             Inr s')))
         else (stop, Inr s))"

subsection \<open>One pass of the main loop (lines 179 to 284)\<close>

text \<open>
  The buffers and the last text are reset first (lines 183 to 185); the engine is kept.
  The input of one pass is the clock reading of line 201 and the polls of the recording.
\<close>

definition clear_buffers :: "'e locals \<Rightarrow> 'e locals" where
  "clear_buffers s = s\<lparr>buf_pcm8k := [], buf_pcm16k := [], last_terminal := []\<rparr>"

definition session ::
  "resampler \<Rightarrow> 'e engine \<Rightarrow> 'e locals \<Rightarrow> real \<times> poll list \<Rightarrow> action list \<times> (exn + 'e locals)" where
  "session resample transcribe s inp =
     (let s0 = (clear_buffers s)\<lparr>last_t := fst inp\<rparr>;
          start = [Send 0x30 (TxCode 1), Send 0x31 (Text (ascii ''Listening...''))]
      in case recording resample transcribe s0 (snd inp) of
           (tr, Inl e) \<Rightarrow> (start @ tr, Inl e)
         | (tr, Inr s1) \<Rightarrow>
             (case finalizing transcribe s1 of (tr', r) \<Rightarrow> (start @ tr @ tr', r)))"

subsection \<open>\<^verbatim>\<open>main\<close>: the loop of passes and the cleanup (lines 178 to 300)\<close>

text \<open>
  \<^verbatim>\<open>while True\<close> has no exit of its own: it ends with an exception. The list holds the
  passes the user starts; after the last one the prompt of line 180 is interrupted.
\<close>

fun main_loop ::
  "resampler \<Rightarrow> 'e engine \<Rightarrow> 'e locals \<Rightarrow> (real \<times> poll list) list \<Rightarrow> action list \<times> exn" where
  "main_loop resample transcribe s [] = ([], KeyboardInterrupt)"
| "main_loop resample transcribe s (inp # inps) =
     (case session resample transcribe s inp of
        (tr, Inl e) \<Rightarrow> (tr, e)
      | (tr, Inr s') \<Rightarrow>
          (case main_loop resample transcribe s' inps of (tr', e) \<Rightarrow> (tr @ tr', e)))"

text \<open>
  The \<^verbatim>\<open>finally\<close> of lines 292 to 300. \<open>rx_audio\<close> says whether the receiver object
  exists; the frame object always does.
\<close>

definition cleanup :: "bool \<Rightarrow> action list" where
  "cleanup rx_audio =
     (if rx_audio then [DetachAudio] else []) @ [DetachPrintHandler, StopFrameApp, Disconnect]"

text \<open>
  The local variables at line 172: the loaded engine and empty buffers (\<open>last_t\<close> is
  not assigned before line 201; the pass sets it before reading it).
\<close>

definition init_locals :: "'e \<Rightarrow> 'e locals" where
  "init_locals m =
     \<lparr>model = m, buf_pcm8k = [], buf_pcm16k = [], last_terminal = [], last_t = 0\<rparr>"

text \<open>
  Both \<^verbatim>\<open>except\<close> clauses only print, so every exception of the loop ends in the
  cleanup.
\<close>

definition main :: "resampler \<Rightarrow> 'e engine \<Rightarrow> 'e \<Rightarrow> (real \<times> poll list) list \<Rightarrow> action list" where
  "main resample transcribe m inps =
     fst (main_loop resample transcribe (init_locals m) inps) @ cleanup True"

subsection \<open>Reading a trace\<close>

text \<open>The windows the engine was called on, in order.\<close>

fun transcribed :: "action list \<Rightarrow> real list list" where
  "transcribed [] = []"
| "transcribed (Transcribe w # tr) = w # transcribed tr"
| "transcribed (a # tr) = transcribed tr"

subsection \<open>Stand-ins for the two libraries, for concrete runs\<close>

text \<open>
  Two resamplers that double the rate, in place of \<^verbatim>\<open>resampy\<close>. \<open>hold_resample\<close>
  repeats every sample. \<open>cubic_resample\<close> keeps every sample and puts between two
  samples the value of the four-point interpolation kernel \<open>(-1, 9, 9, -1) / 16\<close>, with
  zeros beyond the ends of the block; like the windowed-sinc kernel of \<^verbatim>\<open>resampy\<close> it
  has negative side lobes. \<open>cubic_from p xs\<close> is the output for the samples \<open>xs\<close>
  that follow the sample \<open>p\<close>.
\<close>

definition hold_resample :: resampler where
  "hold_resample xs = concat (map (\<lambda>x. [x, x]) xs)"



text \<open>
  An engine that plays a script: its state is the list of the answers still to give, and
  it answers with no segments once the script is used up.
\<close>

fun scripted :: "(exn + str list) list engine" where
  "scripted [] w = (Inr [], [])"
| "scripted (r # rs) w = (r, rs)"

section \<open>Properties\<close>

subsection \<open>The rolling window\<close>

lemma max_samples_eq: "max_samples = 400000"
  by (simp add: max_samples_def CONTEXT_SEC_def RATE_OUT_def)

lemma window_append_drop:
  "window_append w s = drop (length (w @ s) - max_samples) (w @ s)"
  by (simp add: window_append_def slice_last_def Let_def max_samples_eq)

lemma drop_excess_append:
  "drop (length (drop (length xs - n) xs @ ys) - n) (drop (length xs - n) xs @ ys)
     = drop (length (xs @ ys) - n) (xs @ ys)"
  by (cases "length xs \<le> n") (auto simp: add.commute)

lemma foldl_window_append:
  "foldl window_append (drop (length xs - max_samples) xs) bs
     = drop (length (xs @ concat bs) - max_samples) (xs @ concat bs)"
proof (induction bs arbitrary: xs)
  case Nil
  show ?case by simp
next
  case (Cons b bs)
  have "window_append (drop (length xs - max_samples) xs) b
          = drop (length (xs @ b) - max_samples) (xs @ b)"
    unfolding window_append_drop by (rule drop_excess_append)
  then show ?case using Cons.IH [of "xs @ b"] by simp
qed

text \<open>
  Claim C1, as the code has it. Appending \<open>s\<close> to the window \<open>w\<close> leaves at most
  \<open>max_samples = CONTEXT_SEC * RATE_OUT\<close> samples, and the result is \<open>w @ s\<close> without
  its oldest \<open>length (w @ s) - max_samples\<close> samples, in order: the excess over the
  capacity is what is discarded. When the window is already at capacity the excess is
  the \<open>length s\<close> appended samples' worth. For every sequence \<open>bs\<close> of appended
  blocks, starting from a window within capacity, the window stays within capacity and
  is the most recent capacity-worth of everything appended.
\<close>

theorem window_append_fifo:
  "length (window_append w s) \<le> max_samples
   \<and> window_append w s = drop (length (w @ s) - max_samples) (w @ s)
   \<and> (length w = max_samples \<longrightarrow> window_append w s = drop (length s) (w @ s))
   \<and> (length w \<le> max_samples \<longrightarrow>
        length (foldl window_append w bs) \<le> max_samples
        \<and> foldl window_append w bs
            = drop (length (w @ concat bs) - max_samples) (w @ concat bs))"
proof -
  have eq: "window_append w s = drop (length (w @ s) - max_samples) (w @ s)"
    by (rule window_append_drop)
  have len: "length (window_append w s) \<le> max_samples"
    unfolding eq by simp
  have full: "window_append w s = drop (length s) (w @ s)" if "length w = max_samples"
    unfolding eq using that by simp
  have seq: "foldl window_append w bs
               = drop (length (w @ concat bs) - max_samples) (w @ concat bs)"
    if "length w \<le> max_samples"
    using that foldl_window_append [of w bs] by simp
  have seq_len: "length (foldl window_append w bs) \<le> max_samples"
    if "length w \<le> max_samples"
    unfolding seq [OF that] by simp
  from eq len full seq seq_len show ?thesis by blast
qed

text \<open>
  A full window of 400000 samples receiving two more, at once and one by one: the two
  oldest samples go.
\<close>

theorem window_append_fifo_witness:
  "length (replicate 400000 (0::real)) = max_samples
   \<and> length (window_append (replicate 400000 0) [1, 2]) \<le> max_samples
   \<and> window_append (replicate 400000 0) [1, 2] = drop 2 (replicate 400000 0 @ [1, 2])
   \<and> foldl window_append (replicate 400000 0) [[1], [2]] = drop 2 (replicate 400000 0 @ [1, 2])"
  using window_append_fifo [of "replicate 400000 0" "[1, 2]" "[[1], [2]]"]
  by (simp add: max_samples_eq)

text \<open>
  Claim C1 as worded says that an append of \<open>k\<close> samples that exceeds the capacity
  discards exactly \<open>k\<close> samples. A window one sample short of the capacity receiving
  two samples exceeds it and loses one sample, not two.
\<close>

theorem window_append_excess_counterexample:
  "length (replicate 399999 (0::real) @ [1, 2]) > max_samples
   \<and> window_append (replicate 399999 0) [1, 2] = drop 1 (replicate 399999 0 @ [1, 2])
   \<and> window_append (replicate 399999 0) [1, 2] \<noteq> drop 2 (replicate 399999 0 @ [1, 2])"
proof -
  have a: "length (replicate 399999 (0::real) @ [1, 2]) > max_samples"
    by (simp add: max_samples_eq)
  have b: "window_append (replicate 399999 0) [1, 2] = drop 1 (replicate 399999 0 @ [1, 2])"
    unfolding window_append_drop by (simp add: max_samples_eq)
  have "length (drop 1 (replicate 399999 (0::real) @ [1, 2]))
          \<noteq> length (drop 2 (replicate 399999 (0::real) @ [1, 2]))"
    by simp
  then have c: "drop 1 (replicate 399999 (0::real) @ [1, 2]) \<noteq> drop 2 (replicate 399999 0 @ [1, 2])"
    by metis
  from a b c show ?thesis by simp
qed

subsection \<open>The cases of one packet\<close>

lemma on_packet_no_tick:
  assumes "\<not> now - last_t s \<ge> STEP_SEC"
  shows "on_packet R T s pkt now now' = ([], Inr (s\<lparr>buf_pcm8k := buf_pcm8k s @ pkt\<rparr>))"
  using assms by (simp add: on_packet_def)

lemma on_packet_convert_error:
  assumes "now - last_t s \<ge> STEP_SEC" and "pcm16_to_f32 (buf_pcm8k s @ pkt) = Inl e"
  shows "on_packet R T s pkt now now'
           = ([], Inl (e, s\<lparr>buf_pcm8k := buf_pcm8k s @ pkt, last_t := now'\<rparr>))"
  using assms by (simp add: on_packet_def)

lemma on_packet_nothing_new:
  assumes "now - last_t s \<ge> STEP_SEC" and "pcm16_to_f32 (buf_pcm8k s @ pkt) = Inr []"
  shows "on_packet R T s pkt now now' = ([], Inr (s\<lparr>buf_pcm8k := [], last_t := now'\<rparr>))"
  using assms by (simp add: on_packet_def)

lemma on_packet_decode_error:
  assumes "now - last_t s \<ge> STEP_SEC" and "pcm16_to_f32 (buf_pcm8k s @ pkt) = Inr pcm"
    and "pcm \<noteq> []"
    and "T (model s) (window_append (buf_pcm16k s) (R pcm)) = (Inl e, m)"
  shows "on_packet R T s pkt now now'
           = ([Transcribe (window_append (buf_pcm16k s) (R pcm))],
              Inl (e, s\<lparr>model := m, buf_pcm8k := [],
                        buf_pcm16k := window_append (buf_pcm16k s) (R pcm), last_t := now'\<rparr>))"
  using assms by (simp add: on_packet_def Let_def)

lemma on_packet_decoded:
  assumes "now - last_t s \<ge> STEP_SEC" and "pcm16_to_f32 (buf_pcm8k s @ pkt) = Inr pcm"
    and "pcm \<noteq> []"
    and "T (model s) (window_append (buf_pcm16k s) (R pcm)) = (Inr segments, m)"
  shows "on_packet R T s pkt now now' =
           (if should_emit (collect_text segments) (last_terminal s)
            then ([Transcribe (window_append (buf_pcm16k s) (R pcm)),
                   Send 0x31 (Text (collect_text segments))],
                  Inr (s\<lparr>model := m, buf_pcm8k := [],
                         buf_pcm16k := window_append (buf_pcm16k s) (R pcm),
                         last_terminal := collect_text segments, last_t := now'\<rparr>))
            else ([Transcribe (window_append (buf_pcm16k s) (R pcm))],
                  Inr (s\<lparr>model := m, buf_pcm8k := [],
                         buf_pcm16k := window_append (buf_pcm16k s) (R pcm),
                         last_t := now'\<rparr>)))"
  using assms by (simp add: on_packet_def Let_def)

subsection \<open>More on the window, and concrete values\<close>


lemma length_window_append:
  "length (window_append w s) = min (length w + length s) max_samples"
  unfolding window_append_drop length_drop length_append by linarith

lemma window_append_nonempty:
  assumes "s \<noteq> []"
  shows "window_append w s \<noteq> []"
proof -
  have "0 < length s" using assms by simp
  then have "0 < length (window_append w s)"
    unfolding length_window_append by (simp add: max_samples_eq)
  then show ?thesis by auto
qed

lemma window_small: "length (w @ s) \<le> 400000 \<Longrightarrow> window_append w s = w @ s"
  by (simp add: window_append_def max_samples_eq)

lemma pcm_zero: "pcm16_to_f32 [0, 0] = Inr [0]"
  by (simp add: pcm16_to_f32_def astype_f32_def)


lemma hold_one: "hold_resample [x] = [x, x]"
  by (simp add: hold_resample_def)


lemma collect_text_y: "collect_text [ascii ''y''] = ascii ''y''"
  by (simp add: ascii_def collect_text_def strip_def is_space_def)

lemma collect_text_none: "collect_text [] = []"
  by (simp add: collect_text_def strip_def)


subsection \<open>The change gate\<close>

text \<open>
  Claim C2. At a tick whose converted block is not empty and whose decode returns,
  the packet handler sends the text and stores it as the last text exactly when
  the text is not empty and differs from the last text; otherwise it sends nothing and
  keeps the last text. The test is \<open>should_emit\<close>, with the four values the claim
  lists.
\<close>

theorem change_gate:
  assumes "now - last_t s \<ge> STEP_SEC"
    and "pcm16_to_f32 (buf_pcm8k s @ pkt) = Inr pcm" and "pcm \<noteq> []"
    and "T (model s) (window_append (buf_pcm16k s) (R pcm)) = (Inr segments, m)"
  shows "on_packet R T s pkt now now' =
           (if collect_text segments \<noteq> [] \<and> collect_text segments \<noteq> last_terminal s
            then ([Transcribe (window_append (buf_pcm16k s) (R pcm)),
                   Send 0x31 (Text (collect_text segments))],
                  Inr (s\<lparr>model := m, buf_pcm8k := [],
                         buf_pcm16k := window_append (buf_pcm16k s) (R pcm),
                         last_terminal := collect_text segments, last_t := now'\<rparr>))
            else ([Transcribe (window_append (buf_pcm16k s) (R pcm))],
                  Inr (s\<lparr>model := m, buf_pcm8k := [],
                         buf_pcm16k := window_append (buf_pcm16k s) (R pcm),
                         last_t := now'\<rparr>)))
         \<and> should_emit new_text last_text = (new_text \<noteq> [] \<and> new_text \<noteq> last_text)
         \<and> should_emit (ascii '''') (ascii ''x'') = False
         \<and> should_emit (ascii ''x'') (ascii ''x'') = False
         \<and> should_emit (ascii ''y'') (ascii ''x'') = True
         \<and> should_emit (ascii ''x'') (ascii '''') = True"
  using on_packet_decoded [where R = R and T = T, OF assms]
  by (simp add: should_emit_def ascii_def)

text \<open>
  The last text is \<open>x\<close>, the engine answers \<open>y\<close>: the text is sent and stored.
\<close>

theorem change_gate_witness:
  "on_packet hold_resample scripted
     \<lparr>model = [Inr [ascii ''y'']], buf_pcm8k = [], buf_pcm16k = [], last_terminal = ascii ''x'', last_t = 0\<rparr>
     [0, 0] 1 1
   = ([Transcribe [0, 0], Send 0x31 (Text (ascii ''y''))],
      Inr \<lparr>model = [], buf_pcm8k = [], buf_pcm16k = [0, 0], last_terminal = ascii ''y'', last_t = 1\<rparr>)"
  using change_gate [where now = 1 and now' = 1 and pkt = "[0, 0]" and pcm = "[0]"
      and T = scripted and R = hold_resample and segments = "[ascii ''y'']" and m = "[]"
      and s = "\<lparr>model = [Inr [ascii ''y'']], buf_pcm8k = [], buf_pcm16k = [],
                last_terminal = ascii ''x'', last_t = 0\<rparr>"]
  by (simp add: STEP_SEC_def pcm_zero hold_one window_small ascii_def collect_text_def strip_def is_space_def)

subsection \<open>The range of the converted samples\<close>








subsection \<open>What a tick does\<close>

lemma pcm_empty: "pcm16_to_f32 [] = Inr []"
  by (simp add: pcm16_to_f32_def)

text \<open>
  Claim C6, as the code has it. A tick is a packet for which the test of line 214
  holds. At a tick whose raw buffer converts, the engine is called exactly when the
  converted block is not empty (the test of line 218), once, on the window with the
  resampled block appended; when the block is empty the window is left as it was and the
  engine is not called, whatever the window holds. The window the engine is called on is
  not empty when the resampler gives a non-empty block.
\<close>

theorem tick_decodes_new_block:
  assumes "now - last_t s \<ge> STEP_SEC"
    and "pcm16_to_f32 (buf_pcm8k s @ pkt) = Inr pcm"
  shows "transcribed (fst (on_packet R T s pkt now now'))
           = (if pcm = [] then [] else [window_append (buf_pcm16k s) (R pcm)])
         \<and> (pcm = [] \<longrightarrow>
              on_packet R T s pkt now now' = ([], Inr (s\<lparr>buf_pcm8k := [], last_t := now'\<rparr>)))
         \<and> (pcm \<noteq> [] \<and> R pcm \<noteq> [] \<longrightarrow> window_append (buf_pcm16k s) (R pcm) \<noteq> [])"
proof (cases "pcm = []")
  case True
  then show ?thesis using on_packet_nothing_new [OF assms(1), of pkt R T now'] assms(2) by simp
next
  case False
  obtain r m where tm: "T (model s) (window_append (buf_pcm16k s) (R pcm)) = (r, m)"
    by (cases "T (model s) (window_append (buf_pcm16k s) (R pcm))")
  have tr: "transcribed (fst (on_packet R T s pkt now now'))
              = [window_append (buf_pcm16k s) (R pcm)]"
  proof (cases r)
    case (Inl e)
    then show ?thesis
      using on_packet_decode_error [where R = R and T = T, OF assms False] tm by simp
  next
    case (Inr segments)
    then show ?thesis
      using on_packet_decoded [where R = R and T = T, OF assms False] tm by simp
  qed
  with False show ?thesis by (simp add: window_append_nonempty)
qed

text \<open>
  A tick with one sample calls the engine on the two resampled samples; the next tick,
  with an empty packet, calls nothing and leaves the window.
\<close>

theorem tick_decodes_new_block_witness:
  "transcribed (fst (on_packet hold_resample scripted
      \<lparr>model = [Inr [ascii ''y'']], buf_pcm8k = [], buf_pcm16k = [], last_terminal = ascii ''x'', last_t = 0\<rparr>
      [0, 0] 1 1)) = [[0, 0]]
   \<and> on_packet hold_resample scripted
      \<lparr>model = [], buf_pcm8k = [], buf_pcm16k = [0, 0], last_terminal = ascii ''y'', last_t = 1\<rparr>
      [] 2 2
     = ([], Inr \<lparr>model = [], buf_pcm8k = [], buf_pcm16k = [0, 0], last_terminal = ascii ''y'', last_t = 2\<rparr>)"
  using tick_decodes_new_block [where now = 1 and now' = 1 and pkt = "[0, 0]" and pcm = "[0]"
      and T = scripted and R = hold_resample
      and s = "\<lparr>model = [Inr [ascii ''y'']], buf_pcm8k = [], buf_pcm16k = [],
                last_terminal = ascii ''x'', last_t = 0\<rparr>"]
    tick_decodes_new_block [where now = 2 and now' = 2 and pkt = "[]" and pcm = "[]"
      and T = scripted and R = hold_resample
      and s = "\<lparr>model = [], buf_pcm8k = [], buf_pcm16k = [0, 0],
                last_terminal = ascii ''y'', last_t = 1\<rparr>"]
  by (simp add: STEP_SEC_def pcm_zero pcm_empty hold_one window_small)

text \<open>
  Claim C6 as worded says that a non-empty window at a tick always triggers a decode.
  After one tick has put two samples into the window, a second tick that brings an empty
  packet finds the test of line 214 true and the window non-empty, and calls no decode.
\<close>

theorem tick_without_decode_counterexample:
  "rec_loop hold_resample scripted (init_locals [Inr [ascii ''y'']]) [Chunk [0, 0] 1 1]
     = ([Transcribe [0, 0], Send 0x31 (Text (ascii ''y''))],
        Inr (\<lparr>model = [], buf_pcm8k = [], buf_pcm16k = [0, 0], last_terminal = ascii ''y'', last_t = 1\<rparr>,
             StopSet))
   \<and> 2 - last_t \<lparr>model = ([] :: (exn + str list) list), buf_pcm8k = [], buf_pcm16k = [0, 0],
                  last_terminal = ascii ''y'', last_t = 1\<rparr> \<ge> STEP_SEC
   \<and> on_packet hold_resample scripted
        \<lparr>model = [], buf_pcm8k = [], buf_pcm16k = [0, 0], last_terminal = ascii ''y'', last_t = 1\<rparr>
        [] 2 2
     = ([], Inr \<lparr>model = [], buf_pcm8k = [], buf_pcm16k = [0, 0], last_terminal = ascii ''y'', last_t = 2\<rparr>)
   \<and> buf_pcm16k \<lparr>model = ([] :: (exn + str list) list), buf_pcm8k = [], buf_pcm16k = [0, 0],
                   last_terminal = ascii ''y'', last_t = 2\<rparr> \<noteq> []"
  by (simp add: init_locals_def on_packet_def timeout_handler_def Let_def STEP_SEC_def pcm_zero pcm_empty hold_one
      window_small ascii_def collect_text_def strip_def is_space_def should_emit_def)



subsection \<open>The recording loop and what follows it\<close>

text \<open>
  Polls that the loop runs through without leaving it can be followed by more polls.
\<close>

lemma rec_loop_append:
  assumes "rec_loop R T s pre = (tr, Inr (s', StopSet))"
  shows "rec_loop R T s (pre @ ps)
           = (tr @ fst (rec_loop R T s' ps), snd (rec_loop R T s' ps))"
  using assms
proof (induction pre arbitrary: s tr)
  case Nil
  then show ?case by simp
next
  case (Cons p pre)
  show ?case
  proof (cases p)
    case Timeout
    with Cons show ?thesis by simp
  next
    case EndOfStream
    with Cons.prems show ?thesis by simp
  next
    case (Chunk pkt now now')
    obtain t1 r1 where op: "on_packet R T s pkt now now' = (t1, r1)"
      by (cases "on_packet R T s pkt now now'")
    show ?thesis
    proof (cases "timeout_handler r1")
      case (Inl e)
      with Cons.prems Chunk op show ?thesis by simp
    next
      case (Inr s1)
      obtain t2 r2 where rl: "rec_loop R T s1 pre = (t2, r2)"
        by (cases "rec_loop R T s1 pre")
      from Cons.prems Chunk op Inr rl have r2: "r2 = Inr (s', StopSet)" and tr: "tr = t1 @ t2"
        by auto
      from Cons.IH [of s1 t2] rl r2
      have "rec_loop R T s1 (pre @ ps)
              = (t2 @ fst (rec_loop R T s' ps), snd (rec_loop R T s' ps))"
        by simp
      with Chunk op Inr tr show ?thesis by simp
    qed
  qed
qed

lemmas run_simps =
  main_def init_locals_def cleanup_def session_def clear_buffers_def recording_def
  timeout_handler_def finalizing_def on_packet_def Let_def STEP_SEC_def should_emit_def
  ascii_def collect_text_def strip_def is_space_def
  pcm_zero pcm_empty hold_one window_small

text \<open>
  The three ways through the code after the loop.
\<close>

lemma finalizing_empty:
  assumes "buf_pcm16k s = []"
  shows "finalizing T s = ([Send 0x30 (TxCode 0)], Inr s)"
  using assms by (simp add: finalizing_def)

lemma finalizing_error:
  assumes "buf_pcm16k s \<noteq> []" and "T (model s) (buf_pcm16k s) = (Inl e, m)"
  shows "finalizing T s =
           ([Send 0x30 (TxCode 0), Send 0x31 (Text (ascii ''Processing final transcription...'')),
             Transcribe (buf_pcm16k s)], Inl e)"
  using assms by (simp add: finalizing_def)

lemma finalizing_decoded:
  assumes "buf_pcm16k s \<noteq> []" and "T (model s) (buf_pcm16k s) = (Inr segments, m)"
  shows "finalizing T s =
           ([Send 0x30 (TxCode 0), Send 0x31 (Text (ascii ''Processing final transcription...'')),
             Transcribe (buf_pcm16k s),
             Send 0x31 (Text (if collect_text segments \<noteq> [] then collect_text segments
                              else (ascii ''No speech detected.'')))],
            Inr (s\<lparr>model := m\<rparr>))"
  using assms by (simp add: finalizing_def Let_def)

text \<open>
  Claim C8. When the polls \<open>pre\<close> have been handled without leaving the loop and the
  queue then delivers \<^verbatim>\<open>None\<close>, the loop ends by its \<^verbatim>\<open>break\<close> with no exception, with
  the trace and the local variables (the window among them) as they were after \<open>pre\<close>;
  whatever the queue holds after the marker is not read. The pass goes on as usual: the
  stop task is cancelled and the code after the loop runs on that window.
\<close>

theorem end_of_stream_is_normal_exit:
  assumes "rec_loop R T s0 pre = (tr, Inr (s', StopSet))"
  shows "rec_loop R T s0 (pre @ EndOfStream # rest) = (tr, Inr (s', Break))
         \<and> recording R T s0 (pre @ EndOfStream # rest) = (tr @ [CancelStopTask], Inr s')
         \<and> (s0 = (clear_buffers s)\<lparr>last_t := t0\<rparr> \<longrightarrow>
              session R T s (t0, pre @ EndOfStream # rest)
                = (Send 0x30 (TxCode 1) # Send 0x31 (Text (ascii ''Listening...'')) # tr
                     @ CancelStopTask # fst (finalizing T s'),
                   snd (finalizing T s')))"
proof -
  have loop: "rec_loop R T s0 (pre @ EndOfStream # rest) = (tr, Inr (s', Break))"
    using rec_loop_append [OF assms, of "EndOfStream # rest"] by simp
  then have rec: "recording R T s0 (pre @ EndOfStream # rest) = (tr @ [CancelStopTask], Inr s')"
    by (simp add: recording_def)
  have "session R T s (t0, pre @ EndOfStream # rest)
          = (Send 0x30 (TxCode 1) # Send 0x31 (Text (ascii ''Listening...'')) # tr
               @ CancelStopTask # fst (finalizing T s'),
             snd (finalizing T s'))"
    if "s0 = (clear_buffers s)\<lparr>last_t := t0\<rparr>"
    using rec that by (simp add: session_def Let_def split: prod.splits)
  with loop rec show ?thesis by blast
qed

text \<open>
  One tick, then the end of the stream, then a packet that is never read.
\<close>

theorem end_of_stream_is_normal_exit_witness:
  "session hold_resample scripted (init_locals [Inr [ascii ''y''], Inr [ascii ''y'']])
     (0, [Chunk [0, 0] 1 1, EndOfStream, Chunk [0, 0] 2 2])
   = ([Send 0x30 (TxCode 1), Send 0x31 (Text (ascii ''Listening...'')),
       Transcribe [0, 0], Send 0x31 (Text (ascii ''y'')), CancelStopTask,
       Send 0x30 (TxCode 0), Send 0x31 (Text (ascii ''Processing final transcription...'')),
       Transcribe [0, 0], Send 0x31 (Text (ascii ''y''))],
      Inr \<lparr>model = [], buf_pcm8k = [], buf_pcm16k = [0, 0], last_terminal = ascii ''y'', last_t = 1\<rparr>)"
  using end_of_stream_is_normal_exit [where R = hold_resample and T = scripted
      and pre = "[Chunk [0, 0] 1 1]" and rest = "[Chunk [0, 0] 2 2]" and ?t0.0 = 0
      and s = "init_locals [Inr [ascii ''y''], Inr [ascii ''y'']]"
      and ?s0.0 = "(clear_buffers (init_locals [Inr [ascii ''y''], Inr [ascii ''y'']]))\<lparr>last_t := 0\<rparr>"
      and tr = "[Transcribe [0, 0], Send 0x31 (Text (ascii ''y''))]"
      and s' = "\<lparr>model = [Inr [ascii ''y'']], buf_pcm8k = [], buf_pcm16k = [0, 0],
                 last_terminal = ascii ''y'', last_t = 1\<rparr>"]
  by (simp add: run_simps)

subsection \<open>After the loop\<close>

text \<open>
  Claim C3, as the code has it. With an empty window the code after the loop sends the
  stop code and nothing else: no text at all (the test of line 264 guards the whole
  final transcription). The text \<^verbatim>\<open>No speech detected.\<close> is sent when the window holds
  samples and the final decode gives an empty text.
\<close>

theorem fallback_text_needs_samples:
  "(buf_pcm16k s = [] \<longrightarrow> finalizing T s = ([Send 0x30 (TxCode 0)], Inr s))
   \<and> (buf_pcm16k s \<noteq> [] \<and> T (model s) (buf_pcm16k s) = (Inr segments, m)
        \<and> collect_text segments = []
      \<longrightarrow> finalizing T s =
            ([Send 0x30 (TxCode 0), Send 0x31 (Text (ascii ''Processing final transcription...'')),
              Transcribe (buf_pcm16k s), Send 0x31 (Text (ascii ''No speech detected.''))],
             Inr (s\<lparr>model := m\<rparr>)))"
  using finalizing_empty [of s T] finalizing_decoded [of s T segments m] by simp

text \<open>
  The code after the loop on an empty window, and on a window of two samples with an
  engine that finds no segment.
\<close>

theorem fallback_text_needs_samples_witness:
  "finalizing scripted
     \<lparr>model = [], buf_pcm8k = [], buf_pcm16k = [], last_terminal = [], last_t = 0\<rparr>
     = ([Send 0x30 (TxCode 0)],
        Inr \<lparr>model = [], buf_pcm8k = [], buf_pcm16k = [], last_terminal = [], last_t = 0\<rparr>)
   \<and> finalizing scripted
     \<lparr>model = [], buf_pcm8k = [], buf_pcm16k = [0, 0], last_terminal = [], last_t = 1\<rparr>
     = ([Send 0x30 (TxCode 0), Send 0x31 (Text (ascii ''Processing final transcription...'')),
         Transcribe [0, 0], Send 0x31 (Text (ascii ''No speech detected.''))],
        Inr \<lparr>model = [], buf_pcm8k = [], buf_pcm16k = [0, 0], last_terminal = [], last_t = 1\<rparr>)"
  using fallback_text_needs_samples [where T = scripted and segments = "[]" and m = "[]"
      and s = "\<lparr>model = [], buf_pcm8k = [], buf_pcm16k = [], last_terminal = [], last_t = 0\<rparr>"]
    fallback_text_needs_samples [where T = scripted and segments = "[]" and m = "[]"
      and s = "\<lparr>model = [], buf_pcm8k = [], buf_pcm16k = [0, 0], last_terminal = [], last_t = 1\<rparr>"]
  by (simp add: collect_text_none)

text \<open>
  Claim C3 as worded says that an empty window makes the pass send the fallback text.
  A pass whose recording sees only timeouts ends with an empty window and sends the two
  start messages and the stop code; the fallback text is not among them.
\<close>

theorem empty_window_no_fallback_counterexample:
  "session hold_resample scripted (init_locals []) (0, [Timeout, Timeout])
     = ([Send 0x30 (TxCode 1), Send 0x31 (Text (ascii ''Listening...'')), Send 0x30 (TxCode 0)],
        Inr \<lparr>model = [], buf_pcm8k = [], buf_pcm16k = [], last_terminal = [], last_t = 0\<rparr>)
   \<and> Send 0x31 (Text (ascii ''No speech detected.''))
        \<notin> set (fst (session hold_resample scripted (init_locals []) (0, [Timeout, Timeout])))"
  by (simp add: run_simps)

text \<open>
  Claim C5, as the code has it. The actions after the loop, in order: the stop code
  \<^verbatim>\<open>TxCode(value=0)\<close> to the device first (line 261); then, only when the window
  holds samples, the processing message, the final decode, and the final message (the
  text, or the fallback when the text is empty; none when the decode raises).
\<close>

theorem finalizing_order:
  "fst (finalizing T s) =
     Send 0x30 (TxCode 0) #
     (if buf_pcm16k s = [] then []
      else Send 0x31 (Text (ascii ''Processing final transcription...'')) #
           Transcribe (buf_pcm16k s) #
           (case fst (T (model s) (buf_pcm16k s)) of
              Inl e \<Rightarrow> []
            | Inr segments \<Rightarrow>
                [Send 0x31 (Text (if collect_text segments \<noteq> [] then collect_text segments
                                  else (ascii ''No speech detected.'')))]))"
  by (simp add: finalizing_def Let_def split: prod.splits sum.splits)

text \<open>
  Claim C5 as worded puts the processing message first and the stop code last. In a pass
  with one tick of two samples, the stop code is the first action after the loop and the
  final text is the last.
\<close>

theorem stop_signal_first_counterexample:
  "session hold_resample scripted (init_locals [Inr [ascii ''y''], Inr [ascii ''y'']])
     (0, [Chunk [0, 0, 0, 0] 1 1])
   = ([Send 0x30 (TxCode 1), Send 0x31 (Text (ascii ''Listening...'')),
       Transcribe [0, 0, 0, 0], Send 0x31 (Text (ascii ''y'')),
       Send 0x30 (TxCode 0), Send 0x31 (Text (ascii ''Processing final transcription...'')),
       Transcribe [0, 0, 0, 0], Send 0x31 (Text (ascii ''y''))],
      Inr \<lparr>model = [], buf_pcm8k = [], buf_pcm16k = [0, 0, 0, 0], last_terminal = ascii ''y'',
            last_t = 1\<rparr>)
   \<and> last (fst (session hold_resample scripted (init_locals [Inr [ascii ''y''], Inr [ascii ''y'']])
                    (0, [Chunk [0, 0, 0, 0] 1 1])))
       \<noteq> Send 0x30 (TxCode 0)"
  by (simp add: run_simps pcm16_to_f32_def astype_f32_def hold_resample_def)

text \<open>
  Claim C10. When the window holds samples and the final decode gives a non-empty
  text, that text is sent whatever the last text \<open>l\<close> is, and so also when the last
  text is that very text: line 278 tests the text only.
\<close>

theorem final_text_bypasses_gate:
  assumes "buf_pcm16k s \<noteq> []" and "T (model s) (buf_pcm16k s) = (Inr segments, m)"
    and "collect_text segments \<noteq> []"
  shows "finalizing T (s\<lparr>last_terminal := l\<rparr>) =
           ([Send 0x30 (TxCode 0), Send 0x31 (Text (ascii ''Processing final transcription...'')),
             Transcribe (buf_pcm16k s), Send 0x31 (Text (collect_text segments))],
            Inr (s\<lparr>model := m, last_terminal := l\<rparr>))
         \<and> Send 0x31 (Text (collect_text segments))
             \<in> set (fst (finalizing T (s\<lparr>last_terminal := collect_text segments\<rparr>)))"
proof -
  have "finalizing T (s\<lparr>last_terminal := l\<rparr>) =
           ([Send 0x30 (TxCode 0), Send 0x31 (Text (ascii ''Processing final transcription...'')),
             Transcribe (buf_pcm16k s), Send 0x31 (Text (collect_text segments))],
            Inr (s\<lparr>model := m, last_terminal := l\<rparr>))" for l
    using finalizing_decoded [of "s\<lparr>last_terminal := l\<rparr>" T segments m] assms by simp
  then show ?thesis by simp
qed

text \<open>
  A pass with one tick: the engine answers \<open>y\<close> at the tick, which is sent and
  becomes the last text, and answers \<open>y\<close> again after the loop, which is sent again.
\<close>

theorem final_text_bypasses_gate_witness:
  "session hold_resample scripted (init_locals [Inr [ascii ''y''], Inr [ascii ''y'']]) (0, [Chunk [0, 0] 1 1])
   = ([Send 0x30 (TxCode 1), Send 0x31 (Text (ascii ''Listening...'')),
       Transcribe [0, 0], Send 0x31 (Text (ascii ''y'')),
       Send 0x30 (TxCode 0), Send 0x31 (Text (ascii ''Processing final transcription...'')),
       Transcribe [0, 0], Send 0x31 (Text (ascii ''y''))],
      Inr \<lparr>model = [], buf_pcm8k = [], buf_pcm16k = [0, 0], last_terminal = ascii ''y'', last_t = 1\<rparr>)
   \<and> finalizing scripted
       \<lparr>model = [Inr [ascii ''y'']], buf_pcm8k = [], buf_pcm16k = [0, 0], last_terminal = ascii ''y'', last_t = 1\<rparr>
     = ([Send 0x30 (TxCode 0), Send 0x31 (Text (ascii ''Processing final transcription...'')),
         Transcribe [0, 0], Send 0x31 (Text (ascii ''y''))],
        Inr \<lparr>model = [], buf_pcm8k = [], buf_pcm16k = [0, 0], last_terminal = ascii ''y'', last_t = 1\<rparr>)"
  using final_text_bypasses_gate [where T = scripted and segments = "[ascii ''y'']" and m = "[]"
      and l = "ascii ''y''"
      and s = "\<lparr>model = [Inr [ascii ''y'']], buf_pcm8k = [], buf_pcm16k = [0, 0],
                last_terminal = ascii ''y'', last_t = 1\<rparr>"]
  by (simp add: run_simps)

subsection \<open>An exception of the engine\<close>

text \<open>
  The recording loop sends texts and calls the engine, and nothing else.
\<close>

lemma on_packet_trace:
  assumes "a \<in> set (fst (on_packet R T s pkt now now'))"
  shows "(\<exists>w. a = Transcribe w) \<or> (\<exists>t. a = Send 0x31 (Text t))"
  using assms
  by (auto simp: on_packet_def Let_def split: if_splits sum.splits prod.splits)

lemma rec_loop_trace:
  assumes "a \<in> set (fst (rec_loop R T s ps))"
  shows "(\<exists>w. a = Transcribe w) \<or> (\<exists>t. a = Send 0x31 (Text t))"
  using assms
proof (induction ps arbitrary: s)
  case Nil
  then show ?case by simp
next
  case (Cons p ps)
  show ?case
  proof (cases p)
    case Timeout
    with Cons show ?thesis by simp
  next
    case EndOfStream
    with Cons.prems show ?thesis by simp
  next
    case (Chunk pkt now now')
    obtain t1 r1 where op: "on_packet R T s pkt now now' = (t1, r1)"
      by (cases "on_packet R T s pkt now now'")
    have first: "(\<exists>w. a = Transcribe w) \<or> (\<exists>t. a = Send 0x31 (Text t))" if "a \<in> set t1"
      using on_packet_trace [of a R T s pkt now now'] op that by simp
    show ?thesis
    proof (cases "timeout_handler r1")
      case (Inl e)
      with Cons.prems Chunk op have "a \<in> set t1" by simp
      then show ?thesis by (rule first)
    next
      case (Inr s1)
      with Cons.prems Chunk op have "a \<in> set t1 \<or> a \<in> set (fst (rec_loop R T s1 ps))"
        by (auto split: prod.splits)
      then show ?thesis using first Cons.IH [of s1] by blast
    qed
  qed
qed

lemma rec_loop_no_stop_signal: "Send 0x30 (TxCode 0) \<notin> set (fst (rec_loop R T s ps))"
  using rec_loop_trace [of "Send 0x30 (TxCode 0)" R T s ps] by auto

lemma main_loop_error:
  assumes "session R T s inp = (tr, Inl e)"
  shows "main_loop R T s (inp # later) = (tr, e)"
  using assms by simp

text \<open>
  Claim C4, as the code has it. When the engine raises at a tick of the recording loop
  anything but \<^verbatim>\<open>asyncio.TimeoutError\<close>, the loop, the pass and the loop of passes end
  there: the trace of the passes ends with that one call of the engine and the
  cancellation of the stop task, and the polls and passes still to come are not run, so
  the decode is not tried again; the stop code \<^verbatim>\<open>TxCode(value=0)\<close> of line 261 is not
  reached. When the engine raises \<^verbatim>\<open>asyncio.TimeoutError\<close> at a tick, the handler of
  lines 246 to 248 catches it and the loop goes on with the polls that follow, the raw
  buffer cleared and the window extended. When the engine raises anything in the final
  decode, which no handler of the loop encloses, the stop code and the processing message
  have been sent before the call and nothing follows it. In every case \<^verbatim>\<open>main\<close> ends
  with the cleanup: the audio receiver and the print handler are detached, the device app
  is stopped, the link is closed.
\<close>

theorem decode_error_is_fatal:
  "(rec_loop R T ((clear_buffers s)\<lparr>last_t := t0\<rparr>) pre = (tr, Inr (s1, StopSet))
      \<and> now - last_t s1 \<ge> STEP_SEC
      \<and> pcm16_to_f32 (buf_pcm8k s1 @ pkt) = Inr pcm \<and> pcm \<noteq> []
      \<and> T (model s1) (window_append (buf_pcm16k s1) (R pcm)) = (Inl e, m)
      \<and> e \<noteq> TimeoutError
    \<longrightarrow> main_loop R T s ((t0, pre @ Chunk pkt now now' # rest) # later)
          = (Send 0x30 (TxCode 1) # Send 0x31 (Text (ascii ''Listening...'')) # tr
               @ [Transcribe (window_append (buf_pcm16k s1) (R pcm)), CancelStopTask], e)
        \<and> Send 0x30 (TxCode 0) \<notin> set tr)
   \<and> (now - last_t s1 \<ge> STEP_SEC
      \<and> pcm16_to_f32 (buf_pcm8k s1 @ pkt) = Inr pcm \<and> pcm \<noteq> []
      \<and> T (model s1) (window_append (buf_pcm16k s1) (R pcm)) = (Inl TimeoutError, m)
    \<longrightarrow> rec_loop R T s1 (Chunk pkt now now' # rest)
          = (Transcribe (window_append (buf_pcm16k s1) (R pcm)) #
               fst (rec_loop R T
                     (s1\<lparr>model := m, buf_pcm8k := [],
                         buf_pcm16k := window_append (buf_pcm16k s1) (R pcm), last_t := now'\<rparr>)
                     rest),
             snd (rec_loop R T
                   (s1\<lparr>model := m, buf_pcm8k := [],
                       buf_pcm16k := window_append (buf_pcm16k s1) (R pcm), last_t := now'\<rparr>)
                   rest)))
   \<and> (recording R T ((clear_buffers s)\<lparr>last_t := t0\<rparr>) ps = (tr, Inr s1)
      \<and> buf_pcm16k s1 \<noteq> [] \<and> T (model s1) (buf_pcm16k s1) = (Inl e, m)
    \<longrightarrow> main_loop R T s ((t0, ps) # later)
          = (Send 0x30 (TxCode 1) # Send 0x31 (Text (ascii ''Listening...'')) # tr
               @ [Send 0x30 (TxCode 0),
                  Send 0x31 (Text (ascii ''Processing final transcription...'')),
                  Transcribe (buf_pcm16k s1)], e))
   \<and> main R T m0 inps
        = fst (main_loop R T (init_locals m0) inps)
            @ [DetachAudio, DetachPrintHandler, StopFrameApp, Disconnect]"
proof (intro conjI impI)
  assume h: "rec_loop R T ((clear_buffers s)\<lparr>last_t := t0\<rparr>) pre = (tr, Inr (s1, StopSet))
      \<and> now - last_t s1 \<ge> STEP_SEC
      \<and> pcm16_to_f32 (buf_pcm8k s1 @ pkt) = Inr pcm \<and> pcm \<noteq> []
      \<and> T (model s1) (window_append (buf_pcm16k s1) (R pcm)) = (Inl e, m)
      \<and> e \<noteq> TimeoutError"
  then have pre: "rec_loop R T ((clear_buffers s)\<lparr>last_t := t0\<rparr>) pre = (tr, Inr (s1, StopSet))"
    and tick: "now - last_t s1 \<ge> STEP_SEC"
    and conv: "pcm16_to_f32 (buf_pcm8k s1 @ pkt) = Inr pcm" and ne: "pcm \<noteq> []"
    and fail: "T (model s1) (window_append (buf_pcm16k s1) (R pcm)) = (Inl e, m)"
    and fatal: "e \<noteq> TimeoutError"
    by blast+
  have step: "rec_loop R T s1 (Chunk pkt now now' # rest)
                = ([Transcribe (window_append (buf_pcm16k s1) (R pcm))], Inl e)"
    using on_packet_decode_error [where R = R and T = T, OF tick conv ne fail] fatal
    by (simp add: timeout_handler_def)
  have "rec_loop R T ((clear_buffers s)\<lparr>last_t := t0\<rparr>) (pre @ Chunk pkt now now' # rest)
          = (tr @ [Transcribe (window_append (buf_pcm16k s1) (R pcm))], Inl e)"
    using rec_loop_append [OF pre, of "Chunk pkt now now' # rest"] step by simp
  then have "session R T s (t0, pre @ Chunk pkt now now' # rest)
          = (Send 0x30 (TxCode 1) # Send 0x31 (Text (ascii ''Listening...'')) # tr
               @ [Transcribe (window_append (buf_pcm16k s1) (R pcm)), CancelStopTask], Inl e)"
    by (simp add: session_def recording_def Let_def)
  then show "main_loop R T s ((t0, pre @ Chunk pkt now now' # rest) # later)
          = (Send 0x30 (TxCode 1) # Send 0x31 (Text (ascii ''Listening...'')) # tr
               @ [Transcribe (window_append (buf_pcm16k s1) (R pcm)), CancelStopTask], e)"
    by (rule main_loop_error)
  show "Send 0x30 (TxCode 0) \<notin> set tr"
    using rec_loop_no_stop_signal [of R T "(clear_buffers s)\<lparr>last_t := t0\<rparr>" pre] pre by simp
next
  assume h: "now - last_t s1 \<ge> STEP_SEC
      \<and> pcm16_to_f32 (buf_pcm8k s1 @ pkt) = Inr pcm \<and> pcm \<noteq> []
      \<and> T (model s1) (window_append (buf_pcm16k s1) (R pcm)) = (Inl TimeoutError, m)"
  then have tick: "now - last_t s1 \<ge> STEP_SEC"
    and conv: "pcm16_to_f32 (buf_pcm8k s1 @ pkt) = Inr pcm" and ne: "pcm \<noteq> []"
    and fail: "T (model s1) (window_append (buf_pcm16k s1) (R pcm)) = (Inl TimeoutError, m)"
    by blast+
  show "rec_loop R T s1 (Chunk pkt now now' # rest)
          = (Transcribe (window_append (buf_pcm16k s1) (R pcm)) #
               fst (rec_loop R T
                     (s1\<lparr>model := m, buf_pcm8k := [],
                         buf_pcm16k := window_append (buf_pcm16k s1) (R pcm), last_t := now'\<rparr>)
                     rest),
             snd (rec_loop R T
                   (s1\<lparr>model := m, buf_pcm8k := [],
                       buf_pcm16k := window_append (buf_pcm16k s1) (R pcm), last_t := now'\<rparr>)
                   rest))"
    using on_packet_decode_error [where R = R and T = T, OF tick conv ne fail]
    by (simp add: timeout_handler_def split: prod.splits)
next
  assume h: "recording R T ((clear_buffers s)\<lparr>last_t := t0\<rparr>) ps = (tr, Inr s1)
      \<and> buf_pcm16k s1 \<noteq> [] \<and> T (model s1) (buf_pcm16k s1) = (Inl e, m)"
  then have fin: "finalizing T s1 =
           ([Send 0x30 (TxCode 0), Send 0x31 (Text (ascii ''Processing final transcription...'')),
             Transcribe (buf_pcm16k s1)], Inl e)"
    using finalizing_error [of s1 T e m] by simp
  from h have "session R T s (t0, ps)
          = (Send 0x30 (TxCode 1) # Send 0x31 (Text (ascii ''Listening...'')) # tr
               @ [Send 0x30 (TxCode 0),
                  Send 0x31 (Text (ascii ''Processing final transcription...'')),
                  Transcribe (buf_pcm16k s1)], Inl e)"
    unfolding session_def Let_def by (simp add: fin)
  then show "main_loop R T s ((t0, ps) # later)
          = (Send 0x30 (TxCode 1) # Send 0x31 (Text (ascii ''Listening...'')) # tr
               @ [Send 0x30 (TxCode 0),
                  Send 0x31 (Text (ascii ''Processing final transcription...'')),
                  Transcribe (buf_pcm16k s1)], e)"
    by (rule main_loop_error)
next
  show "main R T m0 inps
        = fst (main_loop R T (init_locals m0) inps)
            @ [DetachAudio, DetachPrintHandler, StopFrameApp, Disconnect]"
    by (simp add: main_def cleanup_def)
qed

text \<open>
  An engine that raises at the first tick and ends \<^verbatim>\<open>main\<close>, with a second poll and a
  second pass waiting that are not run; an engine whose first call times out at a tick
  and whose second call, at the next tick, answers; an engine that answers at the tick
  and times out in the final decode, which ends \<^verbatim>\<open>main\<close>.
\<close>

theorem decode_error_is_fatal_witness:
  "main hold_resample scripted [Inl EngineError]
     [(0, [Chunk [0, 0] 1 1, Chunk [0, 0] 2 2]), (5, [Chunk [0, 0] 6 6])]
   = [Send 0x30 (TxCode 1), Send 0x31 (Text (ascii ''Listening...'')), Transcribe [0, 0],
      CancelStopTask, DetachAudio, DetachPrintHandler, StopFrameApp, Disconnect]
   \<and> rec_loop hold_resample scripted
       \<lparr>model = [Inl TimeoutError, Inr [ascii ''y'']], buf_pcm8k = [], buf_pcm16k = [],
         last_terminal = [], last_t = 0\<rparr>
       [Chunk [0, 0] 1 1, Chunk [0, 0] 2 2]
     = ([Transcribe [0, 0], Transcribe [0, 0, 0, 0], Send 0x31 (Text (ascii ''y''))],
        Inr (\<lparr>model = [], buf_pcm8k = [], buf_pcm16k = [0, 0, 0, 0],
               last_terminal = ascii ''y'', last_t = 2\<rparr>, StopSet))
   \<and> main hold_resample scripted [Inr [ascii ''y''], Inl TimeoutError]
     [(0, [Chunk [0, 0] 1 1]), (5, [Chunk [0, 0] 6 6])]
   = [Send 0x30 (TxCode 1), Send 0x31 (Text (ascii ''Listening...'')), Transcribe [0, 0],
      Send 0x31 (Text (ascii ''y'')),
      Send 0x30 (TxCode 0), Send 0x31 (Text (ascii ''Processing final transcription...'')),
      Transcribe [0, 0],
      DetachAudio, DetachPrintHandler, StopFrameApp, Disconnect]"
  using decode_error_is_fatal [where R = hold_resample and T = scripted
      and s = "init_locals [Inl EngineError]" and ?t0.0 = 0 and pre = "[]" and tr = "[]"
      and ?s1.0 = "(clear_buffers (init_locals [Inl EngineError]))\<lparr>last_t := 0\<rparr>"
      and now = 1 and now' = 1 and pkt = "[0, 0]" and pcm = "[0]" and e = EngineError
      and m = "[]" and rest = "[Chunk [0, 0] 2 2]" and later = "[(5, [Chunk [0, 0] 6 6])]"
      and ?m0.0 = "[Inl EngineError]"
      and inps = "[(0, [Chunk [0, 0] 1 1, Chunk [0, 0] 2 2]), (5, [Chunk [0, 0] 6 6])]"]
    decode_error_is_fatal [where R = hold_resample and T = scripted
      and ?s1.0 = "\<lparr>model = [Inl TimeoutError, Inr [ascii ''y'']], buf_pcm8k = [],
                     buf_pcm16k = [], last_terminal = [], last_t = 0\<rparr>"
      and now = 1 and now' = 1 and pkt = "[0, 0]" and pcm = "[0]"
      and m = "[Inr [ascii ''y'']]" and rest = "[Chunk [0, 0] 2 2]"]
    decode_error_is_fatal [where R = hold_resample and T = scripted
      and s = "init_locals [Inr [ascii ''y''], Inl TimeoutError]" and ?t0.0 = 0
      and ps = "[Chunk [0, 0] 1 1]"
      and tr = "[Transcribe [0, 0], Send 0x31 (Text (ascii ''y''))]"
      and ?s1.0 = "\<lparr>model = [Inl TimeoutError], buf_pcm8k = [], buf_pcm16k = [0, 0],
                     last_terminal = ascii ''y'', last_t = 1\<rparr>"
      and e = TimeoutError and m = "[]" and later = "[(5, [Chunk [0, 0] 6 6])]"
      and ?m0.0 = "[Inr [ascii ''y''], Inl TimeoutError]"
      and inps = "[(0, [Chunk [0, 0] 1 1]), (5, [Chunk [0, 0] 6 6])]"]
  by (simp add: run_simps)

text \<open>
  Claim C4 as worded has every decode error fatal and the stop code sent after it. With
  an engine that raises at the first tick, \<^verbatim>\<open>main\<close> goes from the failed call to the
  cleanup and never sends the stop code. With an engine whose first call raises
  \<^verbatim>\<open>asyncio.TimeoutError\<close>, the loop goes on: the next tick decodes again and the pass
  ends as usual.
\<close>

theorem decode_error_counterexample:
  "main hold_resample scripted [Inl EngineError] [(0, [Chunk [0, 0] 1 1])]
   = [Send 0x30 (TxCode 1), Send 0x31 (Text (ascii ''Listening...'')), Transcribe [0, 0],
      CancelStopTask, DetachAudio, DetachPrintHandler, StopFrameApp, Disconnect]
   \<and> Send 0x30 (TxCode 0)
        \<notin> set (main hold_resample scripted [Inl EngineError] [(0, [Chunk [0, 0] 1 1])])
   \<and> main hold_resample scripted [Inl TimeoutError, Inr [ascii ''y''], Inr [ascii ''y'']]
        [(0, [Chunk [0, 0] 1 1, Chunk [0, 0] 2 2])]
   = [Send 0x30 (TxCode 1), Send 0x31 (Text (ascii ''Listening...'')),
      Transcribe [0, 0], Transcribe [0, 0, 0, 0], Send 0x31 (Text (ascii ''y'')),
      Send 0x30 (TxCode 0), Send 0x31 (Text (ascii ''Processing final transcription...'')),
      Transcribe [0, 0, 0, 0], Send 0x31 (Text (ascii ''y'')),
      DetachAudio, DetachPrintHandler, StopFrameApp, Disconnect]"
  by (simp add: run_simps)

end
